theory Spec2Isabelle
  imports Complex_Main
begin

section \<open>JavaScript numbers\<close>

text \<open>
  The analysis code computes on JavaScript numbers.  A number is modelled as an exact real,
  or one of the three non-finite values that the code can produce by dividing by zero or
  by averaging an empty list.  Rounding and the sign of zero are not modelled.
\<close>

datatype jsnum = Fin real | PInf | NInf | NaN

fun jneg :: "jsnum \<Rightarrow> jsnum" where
  "jneg (Fin r) = Fin (- r)"
| "jneg PInf = NInf"
| "jneg NInf = PInf"
| "jneg NaN = NaN"

fun jadd :: "jsnum \<Rightarrow> jsnum \<Rightarrow> jsnum" where
  "jadd NaN y = NaN"
| "jadd x NaN = NaN"
| "jadd (Fin a) (Fin b) = Fin (a + b)"
| "jadd PInf NInf = NaN"
| "jadd NInf PInf = NaN"
| "jadd PInf y = PInf"
| "jadd x PInf = PInf"
| "jadd NInf y = NInf"
| "jadd x NInf = NInf"

definition jsub :: "jsnum \<Rightarrow> jsnum \<Rightarrow> jsnum" where
  "jsub x y = jadd x (jneg y)"

text \<open>The sign of a number that is not NaN, as \<open>-1\<close>, \<open>0\<close> or \<open>1\<close>.\<close>

fun jsign :: "jsnum \<Rightarrow> real" where
  "jsign (Fin r) = sgn r"
| "jsign PInf = 1"
| "jsign NInf = - 1"
| "jsign NaN = 0"

definition signed_inf :: "real \<Rightarrow> jsnum" where
  "signed_inf s = (if s = 0 then NaN else if 0 < s then PInf else NInf)"

fun jmul :: "jsnum \<Rightarrow> jsnum \<Rightarrow> jsnum" where
  "jmul NaN y = NaN"
| "jmul x NaN = NaN"
| "jmul (Fin a) (Fin b) = Fin (a * b)"
| "jmul x y = signed_inf (jsign x * jsign y)"

fun jdiv :: "jsnum \<Rightarrow> jsnum \<Rightarrow> jsnum" where
  "jdiv NaN y = NaN"
| "jdiv x NaN = NaN"
| "jdiv (Fin a) (Fin b) = (if b = 0 then signed_inf (sgn a) else Fin (a / b))"
| "jdiv (Fin a) y = Fin 0"
| "jdiv x (Fin b) = signed_inf (jsign x * (if 0 \<le> b then 1 else - 1))"
| "jdiv x y = NaN"

text \<open>Comparisons: every comparison with NaN is false.\<close>

fun jlt :: "jsnum \<Rightarrow> jsnum \<Rightarrow> bool" where
  "jlt NaN y = False"
| "jlt x NaN = False"
| "jlt (Fin a) (Fin b) = (a < b)"
| "jlt x NInf = False"
| "jlt PInf y = False"
| "jlt NInf y = True"
| "jlt x PInf = True"

definition jgt :: "jsnum \<Rightarrow> jsnum \<Rightarrow> bool" where
  "jgt x y = jlt y x"

definition jle :: "jsnum \<Rightarrow> jsnum \<Rightarrow> bool" where
  "jle x y = (x \<noteq> NaN \<and> y \<noteq> NaN \<and> \<not> jlt y x)"

definition jge :: "jsnum \<Rightarrow> jsnum \<Rightarrow> bool" where
  "jge x y = jle y x"

fun Math_abs :: "jsnum \<Rightarrow> jsnum" where
  "Math_abs (Fin r) = Fin \<bar>r\<bar>"
| "Math_abs PInf = PInf"
| "Math_abs NInf = PInf"
| "Math_abs NaN = NaN"

text \<open>\<open>Math.pow(x, 3)\<close>: the cube keeps the sign and the non-finite values.\<close>

definition Math_pow3 :: "jsnum \<Rightarrow> jsnum" where
  "Math_pow3 x = jmul (jmul x x) x"

fun Math_sqrt :: "jsnum \<Rightarrow> jsnum" where
  "Math_sqrt (Fin r) = (if r < 0 then NaN else Fin (sqrt r))"
| "Math_sqrt PInf = PInf"
| "Math_sqrt NInf = NaN"
| "Math_sqrt NaN = NaN"

fun Math_exp :: "jsnum \<Rightarrow> jsnum" where
  "Math_exp (Fin r) = Fin (exp r)"
| "Math_exp PInf = PInf"
| "Math_exp NInf = Fin 0"
| "Math_exp NaN = NaN"

fun Math_log :: "jsnum \<Rightarrow> jsnum" where
  "Math_log (Fin r) = (if 0 < r then Fin (ln r) else if r = 0 then NInf else NaN)"
| "Math_log PInf = PInf"
| "Math_log NInf = NaN"
| "Math_log NaN = NaN"

text \<open>A length or an index, as a number.\<close>

definition num :: "nat \<Rightarrow> jsnum" where
  "num n = Fin (real n)"

text \<open>
  Reading a number array: an index past the end gives \<open>undefined\<close>, which arithmetic
  turns into NaN.
\<close>

definition num_at :: "jsnum list \<Rightarrow> nat \<Rightarrow> jsnum" where
  "num_at xs i = (if i < length xs then xs ! i else NaN)"

text \<open>
  \<open>Array.prototype.slice(start, end)\<close>: a negative bound counts from the end, and
  both bounds are clamped to the array.
\<close>

definition slice_bound :: "nat \<Rightarrow> int \<Rightarrow> nat" where
  "slice_bound n k = (if k < 0 then nat (max (int n + k) 0) else min (nat k) n)"

definition slice :: "'a list \<Rightarrow> int \<Rightarrow> int \<Rightarrow> 'a list" where
  "slice xs s e =
     (let lo = slice_bound (length xs) s; hi = slice_bound (length xs) e
      in take (hi - lo) (drop lo xs))"

subsection \<open>lodash helpers\<close>

text \<open>\<open>_.sum\<close> adds from the left and is \<open>0\<close> on the empty list.\<close>

definition lodash_sum :: "jsnum list \<Rightarrow> jsnum" where
  "lodash_sum xs = foldl jadd (Fin 0) xs"

text \<open>\<open>_.mean\<close> is NaN on the empty list.\<close>

definition lodash_mean :: "jsnum list \<Rightarrow> jsnum" where
  "lodash_mean xs = (if xs = [] then NaN else jdiv (lodash_sum xs) (num (length xs)))"

text \<open>
  Modelled from the spec: \<open>_.variance\<close> is called by the code but is not a function of
  lodash and is defined nowhere in the repository.  The spec's statistics use the
  population variance: the mean of the squared deviations from the mean.
\<close>

definition variance :: "jsnum list \<Rightarrow> jsnum" where
  "variance xs =
     (let m = lodash_mean xs
      in lodash_mean (map (\<lambda>x. jmul (jsub x m) (jsub x m)) xs))"

section \<open>Errors\<close>

text \<open>The error codes of \<open>types.ts\<close> and the error class that carries them.\<close>

datatype ErrorCode = INSUFFICIENT_DATA | INVALID_DOMAIN | ANALYSIS_FAILED | CACHE_ERROR

datatype thrown =
  AnalysisError (message: string) (code: ErrorCode) (cause: "thrown option")
| OtherError string

text \<open>
  The error kinds the specification names, and the kind each error code of the program
  stands for.  No code of the program stands for a dimension mismatch or a degenerate input.
\<close>

datatype error_kind =
  DimensionMismatch | InsufficientData | DegenerateInput | InvalidDomain | AnalysisFailed

fun kind_of_code :: "ErrorCode \<Rightarrow> error_kind option" where
  "kind_of_code INSUFFICIENT_DATA = Some InsufficientData"
| "kind_of_code INVALID_DOMAIN = Some InvalidDomain"
| "kind_of_code ANALYSIS_FAILED = Some AnalysisFailed"
| "kind_of_code CACHE_ERROR = None"

fun kind_of :: "thrown \<Rightarrow> error_kind option" where
  "kind_of (AnalysisError m c x) = kind_of_code c"
| "kind_of (OtherError m) = None"

section \<open>The analyzer and its construction\<close>

record AnalysisOptions =
  opt_domain :: "string option"
  opt_contextWindow :: "int option"

record PatternAnalyzer =
  data :: "jsnum list"
  timestamps :: "jsnum list"
  domain :: "string option"
  contextWindow :: int

text \<open>
  \<open>options.contextWindow || Math.max(10, Math.floor(data.length / 10))\<close>: an absent
  window and the window \<open>0\<close> both give the default.
\<close>

definition default_contextWindow :: "jsnum list \<Rightarrow> int option \<Rightarrow> int" where
  "default_contextWindow d w =
     (case w of
        None \<Rightarrow> max 10 (int (length d div 10))
      | Some k \<Rightarrow> if k = 0 then max 10 (int (length d div 10)) else k)"

text \<open>The constructor of \<open>analyzers/PatternAnalyzer.ts\<close>, which checks the lengths.\<close>

definition PatternAnalyzer_constructor ::
  "jsnum list \<Rightarrow> jsnum list \<Rightarrow> AnalysisOptions \<Rightarrow> thrown + PatternAnalyzer" where
  "PatternAnalyzer_constructor d ts options =
     (if length d \<noteq> length ts
      then Inl (AnalysisError ''Data and timestamps must have same length''
                  INSUFFICIENT_DATA None)
      else Inr \<lparr> data = d, timestamps = ts, domain = opt_domain options,
                 contextWindow = default_contextWindow d (opt_contextWindow options) \<rparr>)"

text \<open>
  The constructor of the analyzer class local to \<open>experts/ultimate.ts\<close>: it stores its
  arguments and checks nothing.
\<close>

definition ultimate_constructor ::
  "jsnum list \<Rightarrow> jsnum list \<Rightarrow> AnalysisOptions \<Rightarrow> PatternAnalyzer" where
  "ultimate_constructor d ts options =
     \<lparr> data = d, timestamps = ts, domain = opt_domain options,
       contextWindow = default_contextWindow d (opt_contextWindow options) \<rparr>"

section \<open>The facade of \<open>analyzers/PatternAnalyzer.ts\<close>\<close>

text \<open>
  A step of the analysis either returns a value or throws.  The steps run in sequence and
  the first throw ends the sequence.
\<close>

definition and_then :: "thrown + 'a \<Rightarrow> ('a \<Rightarrow> thrown + 'b) \<Rightarrow> thrown + 'b" where
  "and_then m f = (case m of Inl e \<Rightarrow> Inl e | Inr x \<Rightarrow> f x)"

text \<open>
  The detectors, the statistics helpers, the three domain analyzers and the metadata
  helpers are imported from modules that are not among the sources, so each is a
  parameter: what the call returns or throws on the analyzer's data.
\<close>

record ('ts, 'st, 'di, 'co, 'md) collaborators =
  analyzeTimeSeries :: "PatternAnalyzer \<Rightarrow> thrown + 'ts"
  computeStatistics :: "PatternAnalyzer \<Rightarrow> thrown + 'st"
  analyzeFinancialData :: "jsnum list \<Rightarrow> jsnum list \<Rightarrow> thrown + 'di"
  analyzeMedicalData :: "jsnum list \<Rightarrow> jsnum list \<Rightarrow> thrown + 'di"
  analyzeEnvironmentalData :: "jsnum list \<Rightarrow> jsnum list \<Rightarrow> thrown + 'di"
  analyzeCorrelations :: "PatternAnalyzer \<Rightarrow> thrown + 'co"
  computeMetadata :: "PatternAnalyzer \<Rightarrow> 'ts \<Rightarrow> 'st \<Rightarrow> 'di option \<Rightarrow> thrown + 'md"

record ('ts, 'st, 'di, 'co, 'md) HolisticAnalysis =
  timeSeries :: 'ts
  statistics :: 'st
  domainInsights :: "'di option"
  correlations :: 'co
  metadata :: 'md

text \<open>
  \<open>analyzeDomainSpecific\<close>: no domain (absent or the empty string) gives \<open>null\<close>, the
  three known tags dispatch, and every other tag throws \<open>INVALID_DOMAIN\<close>.
\<close>

definition analyzeDomainSpecific ::
  "('ts, 'st, 'di, 'co, 'md) collaborators \<Rightarrow> PatternAnalyzer \<Rightarrow> thrown + 'di option" where
  "analyzeDomainSpecific c a =
     (case domain a of
        None \<Rightarrow> Inr None
      | Some d \<Rightarrow>
          if d = [] then Inr None
          else if d = ''financial''
            then map_sum id Some (analyzeFinancialData c (data a) (timestamps a))
          else if d = ''medical''
            then map_sum id Some (analyzeMedicalData c (data a) (timestamps a))
          else if d = ''environmental''
            then map_sum id Some (analyzeEnvironmentalData c (data a) (timestamps a))
          else Inl (AnalysisError ''Invalid domain specified'' INVALID_DOMAIN None))"

text \<open>
  \<open>analyzeHolistically\<close>: the four steps and the metadata run inside one \<open>try\<close>, and
  the \<open>catch\<close> wraps whatever was thrown in an \<open>ANALYSIS_FAILED\<close> error.
\<close>

definition analyzeHolistically ::
  "('ts, 'st, 'di, 'co, 'md) collaborators \<Rightarrow> PatternAnalyzer
     \<Rightarrow> thrown + ('ts, 'st, 'di, 'co, 'md) HolisticAnalysis" where
  "analyzeHolistically c a =
     (case
        and_then (analyzeTimeSeries c a) (\<lambda>ts.
        and_then (computeStatistics c a) (\<lambda>st.
        and_then (analyzeDomainSpecific c a) (\<lambda>di.
        and_then (analyzeCorrelations c a) (\<lambda>co.
        and_then (computeMetadata c a ts st di) (\<lambda>md.
          Inr \<lparr> timeSeries = ts, statistics = st, domainInsights = di,
                correlations = co, metadata = md \<rparr>)))))
      of
        Inl error \<Rightarrow> Inl (AnalysisError ''Analysis failed'' ANALYSIS_FAILED (Some error))
      | Inr r \<Rightarrow> Inr r)"

definition recognized_domain :: "string \<Rightarrow> bool" where
  "recognized_domain d = (d \<in> {''financial'', ''medical'', ''environmental''})"

text \<open>Collaborators that all succeed, for concrete runs of the facade.\<close>

definition succeeding :: "(unit, unit, unit, unit, unit) collaborators" where
  "succeeding =
     \<lparr> analyzeTimeSeries = (\<lambda>a. Inr ()), computeStatistics = (\<lambda>a. Inr ()),
       analyzeFinancialData = (\<lambda>d t. Inr ()), analyzeMedicalData = (\<lambda>d t. Inr ()),
       analyzeEnvironmentalData = (\<lambda>d t. Inr ()), analyzeCorrelations = (\<lambda>a. Inr ()),
       computeMetadata = (\<lambda>a ts st di. Inr ()) \<rparr>"

definition weather_analyzer :: PatternAnalyzer where
  "weather_analyzer =
     \<lparr> data = [Fin 1, Fin 2], timestamps = [Fin 10, Fin 20],
       domain = Some ''weather'', contextWindow = 10 \<rparr>"

section \<open>The analyzer of \<open>experts/ultimate.ts\<close>\<close>

subsection \<open>Sorting\<close>

text \<open>
  Insertion into a list that is already in order: \<open>after x y\<close> says that \<open>x\<close> has to
  stand behind \<open>y\<close>.  An element that compares equal stays in front of the elements that
  were behind it, so the sort is stable, as \<open>Array.prototype.sort\<close> is.
\<close>

fun insert_by :: "('a \<Rightarrow> 'a \<Rightarrow> bool) \<Rightarrow> 'a \<Rightarrow> 'a list \<Rightarrow> 'a list" where
  "insert_by after x [] = [x]"
| "insert_by after x (y # ys) =
     (if after x y then y # insert_by after x ys else x # y # ys)"

text \<open>
  \<open>Array.prototype.sort(compare)\<close>: \<open>x\<close> stands behind \<open>y\<close> when \<open>compare(x, y)\<close>
  is greater than zero; a NaN from the comparator counts as zero.
\<close>

definition Array_sort :: "('a \<Rightarrow> 'a \<Rightarrow> jsnum) \<Rightarrow> 'a list \<Rightarrow> 'a list" where
  "Array_sort compare xs = foldr (insert_by (\<lambda>x y. jgt (compare x y) (Fin 0))) xs []"

text \<open>
  \<open>_.sortBy\<close> on numbers orders them with lodash's \<open>compareAscending\<close>, which puts a
  NaN behind every other value.
\<close>

definition compareAscending_after :: "jsnum \<Rightarrow> jsnum \<Rightarrow> bool" where
  "compareAscending_after x y = (jgt x y \<or> x = NaN)"

definition lodash_sortBy :: "jsnum list \<Rightarrow> jsnum list" where
  "lodash_sortBy xs = foldr (insert_by compareAscending_after) xs []"

subsection \<open>Trend\<close>

definition tricubeWeight :: "jsnum \<Rightarrow> jsnum" where
  "tricubeWeight x =
     (let absX = Math_abs x
      in if jge absX (Fin 1) then Fin 0
         else Math_pow3 (jsub (Fin 1) (Math_pow3 absX)))"

text \<open>A window entry is the pair of a value and its weight.\<close>

definition getLocalWindow :: "PatternAnalyzer \<Rightarrow> nat \<Rightarrow> (jsnum \<times> jsnum) list" where
  "getLocalWindow a index =
     (let start = max 0 (int index - contextWindow a);
          end = min (int (length (data a))) (int index + contextWindow a + 1)
      in map (\<lambda>(i, v). (v, tricubeWeight (jdiv (num i) (Fin (real_of_int (contextWindow a))))))
           (enumerate 0 (slice (data a) start end)))"

definition computeLocalRegression :: "(jsnum \<times> jsnum) list \<Rightarrow> jsnum" where
  "computeLocalRegression window =
     jdiv (lodash_sum (map (\<lambda>(v, w). jmul v w) window)) (lodash_sum (map snd window))"

text \<open>
  The trend is computed here in exact arithmetic.  A double rounds every operation and
  overflows to Infinity, so nothing below draws a numerical tolerance or a value from this
  definition.  It is the first step of \<open>decomposeSeries\<close>, and the step never throws.
\<close>

definition computeRobustTrend :: "PatternAnalyzer \<Rightarrow> jsnum list" where
  "computeRobustTrend a =
     map (\<lambda>i. computeLocalRegression (getLocalWindow a i)) [0..<length (data a)]"

subsection \<open>Periodicity\<close>

text \<open>
  \<open>computeAutocorrelation\<close> calls \<open>_.variance\<close>, which lodash does not have.  Here
  the variance function of the spec is supplied for it; the facts about peaks and cycles
  below do not depend on the values it returns.
\<close>

definition computeAutocorrelation :: "PatternAnalyzer \<Rightarrow> nat \<Rightarrow> jsnum list" where
  "computeAutocorrelation a maxLag =
     (let mean = lodash_mean (data a);
          variance = variance (data a)
      in map (\<lambda>lag.
                let sum = foldl (\<lambda>s i. jadd s (jmul (jsub (num_at (data a) i) mean)
                                                   (jsub (num_at (data a) (i + lag)) mean)))
                            (Fin 0) [0..<length (data a) - lag];
                    n = length (data a) - lag
                in jdiv sum (jmul (num n) variance))
           [1..<maxLag + 1])"

record peak =
  peak_index :: nat
  peak_value :: jsnum
  isPeak :: bool

definition findPeaks :: "jsnum list \<Rightarrow> peak list" where
  "findPeaks xs =
     filter isPeak
       (map (\<lambda>(index, v).
               \<lparr> peak_index = index + 1, peak_value = v,
                 isPeak = (0 < index \<and> int index < int (length xs) - 1
                           \<and> jgt v (num_at xs (index - 1))
                           \<and> jgt v (num_at xs (index + 1))) \<rparr>)
          (enumerate 0 xs))"

definition assessPeriodConfidence :: "PatternAnalyzer \<Rightarrow> nat \<Rightarrow> jsnum \<Rightarrow> jsnum" where
  "assessPeriodConfidence a period correlation =
     (let n = length (data a);
          coverage = jdiv (jmul (num period) (num (n div period))) (num n)
      in jmul (jmul correlation coverage)
           (jsub (Fin 1) (Math_abs (jsub (Fin (1 / 2)) (jdiv (num period) (num n))))))"

record cycle =
  period :: nat
  strength :: jsnum
  cycle_confidence :: jsnum

definition detectPeriodicity :: "PatternAnalyzer \<Rightarrow> cycle list" where
  "detectPeriodicity a =
     (let maxLag = length (data a) div 3;
          acf = computeAutocorrelation a maxLag
      in Array_sort (\<lambda>x y. jsub (strength y) (strength x))
           (map (\<lambda>p. \<lparr> period = peak_index p, strength = peak_value p,
                       cycle_confidence =
                         assessPeriodConfidence a (peak_index p) (peak_value p) \<rparr>)
              (findPeaks acf)))"

subsection \<open>Decomposition\<close>

text \<open>A map whose callback can throw stops at the first throw.\<close>

fun map_thrown :: "('a \<Rightarrow> thrown + 'b) \<Rightarrow> 'a list \<Rightarrow> thrown + 'b list" where
  "map_thrown f [] = Inr []"
| "map_thrown f (x # xs) =
     and_then (f x) (\<lambda>y. and_then (map_thrown f xs) (\<lambda>ys. Inr (y # ys)))"

text \<open>
  The callback that \<open>extractSeasonalComponent\<close> maps over the seasonal pattern is
  \<open>(_, i) => { const values = ...; return _.mean(values); }\<close>.  Inside it the name \<open>_\<close>
  is the callback's first parameter, the array element \<open>0\<close>, and not lodash, so
  \<open>_.mean\<close> is \<open>undefined\<close> and calling it throws a TypeError, after the values of the
  bucket have been collected.
\<close>

definition seasonalPattern_callback :: "PatternAnalyzer \<Rightarrow> nat \<Rightarrow> nat \<Rightarrow> thrown + jsnum" where
  "seasonalPattern_callback a dominantPeriod i =
     (let values = map snd (filter (\<lambda>(index, v). index mod dominantPeriod = i)
                              (enumerate 0 (data a)))
      in Inl (OtherError ''TypeError: _.mean is not a function''))"

text \<open>
  With no cycle the seasonal component is zero everywhere.  With a cycle the callback
  runs once for every index below the dominant period, which is at least \<open>2\<close>.
\<close>

definition extractSeasonalComponent :: "PatternAnalyzer \<Rightarrow> thrown + jsnum list" where
  "extractSeasonalComponent a =
     (let periods = detectPeriodicity a
      in if periods = [] then Inr (replicate (length (data a)) (Fin 0))
         else
           (let dominantPeriod = period (hd periods)
            in and_then
                 (map_thrown (seasonalPattern_callback a dominantPeriod) [0..<dominantPeriod])
                 (\<lambda>seasonalPattern.
                    Inr (map (\<lambda>i. num_at seasonalPattern (i mod dominantPeriod))
                           [0..<length (data a)]))))"

text \<open>
  Modelled from the spec: \<open>computeResiduals\<close> is called by \<open>decomposeSeries\<close> but is
  defined nowhere in the repository.  The spec's Decomposer gives it: residual = data
  minus trend minus seasonal, at every index of the data.
\<close>

definition computeResiduals :: "PatternAnalyzer \<Rightarrow> jsnum list \<Rightarrow> jsnum list \<Rightarrow> jsnum list" where
  "computeResiduals a trend seasonal =
     map (\<lambda>i. jsub (jsub (num_at (data a) i) (num_at trend i)) (num_at seasonal i))
       [0..<length (data a)]"

record decomposition =
  trend :: "jsnum list"
  seasonal :: "jsnum list"
  residuals :: "jsnum list"

text \<open>
  \<open>decomposeSeries\<close>: the trend, then the seasonal component, whose failure is the
  failure of the decomposition, then the residuals.
\<close>

definition decomposeSeries :: "PatternAnalyzer \<Rightarrow> thrown + decomposition" where
  "decomposeSeries a =
     (let trend = computeRobustTrend a
      in and_then (extractSeasonalComponent a) (\<lambda>seasonal.
           let residuals = computeResiduals a trend seasonal
           in Inr \<lparr> trend = trend, seasonal = seasonal, residuals = residuals \<rparr>))"

subsection \<open>Value at risk\<close>

definition calculateReturns :: "PatternAnalyzer \<Rightarrow> jsnum list" where
  "calculateReturns a =
     map (\<lambda>(i, v). Math_log (jdiv v (num_at (data a) i))) (enumerate 0 (drop 1 (data a)))"

text \<open>
  The confidence level is a finite number.  An index outside the sorted returns reads
  \<open>undefined\<close>, which is \<open>None\<close> here.
\<close>

definition calculateValueAtRisk :: "PatternAnalyzer \<Rightarrow> real \<Rightarrow> jsnum option" where
  "calculateValueAtRisk a confidence =
     (let returns = calculateReturns a;
          sortedReturns = lodash_sortBy returns;
          index = \<lfloor>(1 - confidence) * real (length returns)\<rfloor>
      in if 0 \<le> index \<and> nat index < length sortedReturns
         then Some (sortedReturns ! nat index) else None)"

subsection \<open>A series with two cycles\<close>

definition ex16 :: PatternAnalyzer where
  "ex16 =
     ultimate_constructor (map Fin [3, 1, 2, 1, 3, 1, 2, 1, 3, 1, 2, 1, 3, 1, 2, 1])
       (map Fin [0, 1, 2, 3, 4, 5, 6, 7, 8, 9, 10, 11, 12, 13, 14, 15])
       \<lparr> opt_domain = None, opt_contextWindow = None \<rparr>"

subsection \<open>A price series\<close>

definition prices :: PatternAnalyzer where
  "prices =
     ultimate_constructor
       (map Fin [4, 1, 2, 4, 8, 16, 32, 64, 128, 256, 512, 1024, 2048, 4096, 8192, 16384,
                 32768, 65536, 131072, 262144, 524288])
       (map Fin [0, 1, 2, 3, 4, 5, 6, 7, 8, 9, 10, 11, 12, 13, 14, 15, 16, 17, 18, 19, 20])
       \<lparr> opt_domain = Some ''financial'', opt_contextWindow = None \<rparr>"

subsection \<open>Series with a negative value\<close>

text \<open>
  The ratio of a negative value to a positive one is negative and its logarithm is NaN.
  The second series has one return that is a number, followed by nineteen that are not.
\<close>

definition sign_change :: PatternAnalyzer where
  "sign_change =
     ultimate_constructor [Fin 1, Fin (- 1)] [Fin 0, Fin 1]
       \<lparr> opt_domain = Some ''financial'', opt_contextWindow = None \<rparr>"

definition sign_changes :: PatternAnalyzer where
  "sign_changes =
     ultimate_constructor
       (map Fin [1, 2, - 2, 2, - 2, 2, - 2, 2, - 2, 2, - 2, 2, - 2, 2, - 2, 2, - 2, 2, - 2,
                 2, - 2])
       (map Fin [0, 1, 2, 3, 4, 5, 6, 7, 8, 9, 10, 11, 12, 13, 14, 15, 16, 17, 18, 19, 20])
       \<lparr> opt_domain = Some ''financial'', opt_contextWindow = None \<rparr>"

section \<open>The statistics helpers and the trend detector\<close>

subsection \<open>\<open>analyzers/statistics.ts\<close>\<close>





definition normalCDF :: "jsnum \<Rightarrow> jsnum" where
  "normalCDF x =
     (let t = jdiv (Fin 1) (jadd (Fin 1) (jmul (Fin (2316419 / 10000000)) (Math_abs x)));
          d = jmul (Fin (3989423 / 10000000)) (Math_exp (jdiv (jmul (jneg x) x) (Fin 2)));
          p = jmul (jmul d t)
                (jadd (Fin (3193815 / 10000000))
                   (jmul t (jadd (Fin (- (3565638 / 10000000)))
                      (jmul t (jadd (Fin (1781478 / 1000000))
                         (jmul t (jadd (Fin (- (1821256 / 1000000)))
                            (jmul t (Fin (1330274 / 1000000))))))))))
      in if jgt x (Fin 0) then jsub (Fin 1) p else p)"

definition calculateSignificance :: "jsnum \<Rightarrow> nat \<Rightarrow> jsnum" where
  "calculateSignificance coefficient n =
     (let tStatistic =
            jmul coefficient
              (Math_sqrt (jdiv (Fin (real n - 2))
                            (jsub (Fin 1) (jmul coefficient coefficient))))
      in jmul (Fin 2) (jsub (Fin 1) (normalCDF (Math_abs tStatistic))))"

record autocorrelation =
  lag :: nat
  coefficient :: jsnum
  significance :: jsnum

text \<open>
  \<open>calculateAutocorrelation\<close> calls \<open>_.variance\<close>.  lodash has no function of that
  name and the repository adds none, so in the program as it stands the name is
  \<open>undefined\<close> and the call throws a TypeError.  What lodash holds under the name is a
  parameter: \<open>None\<close> for lodash as it is, \<open>Some v\<close> for a lodash to which a variance
  function \<open>v\<close> has been added.
\<close>

definition lodash_variance_call ::
  "(jsnum list \<Rightarrow> jsnum) option \<Rightarrow> jsnum list \<Rightarrow> thrown + jsnum" where
  "lodash_variance_call added xs =
     (case added of
        None \<Rightarrow> Inl (OtherError ''TypeError: _.variance is not a function'')
      | Some v \<Rightarrow> Inr (v xs))"

text \<open>The maximal lag is a parameter; the source's default for it is \<open>20\<close>.\<close>

definition calculateAutocorrelation ::
  "(jsnum list \<Rightarrow> jsnum) option \<Rightarrow> jsnum list \<Rightarrow> nat \<Rightarrow> thrown + autocorrelation list" where
  "calculateAutocorrelation added d maxLag =
     (let mean = lodash_mean d
      in and_then (lodash_variance_call added d) (\<lambda>variance.
           let n = length d
           in Inr (map (\<lambda>lag.
                          let sum = foldl (\<lambda>s i. jadd s (jmul (jsub (num_at d i) mean)
                                                             (jsub (num_at d (i + lag)) mean)))
                                      (Fin 0) [0..<n - lag];
                              count = n - lag;
                              coefficient = jdiv sum (jmul (num count) variance);
                              significance = calculateSignificance coefficient count
                          in \<lparr> lag = lag, coefficient = coefficient,
                               significance = significance \<rparr>)
                     [1..<maxLag + 1])))"

subsection \<open>\<open>analyzers/detectors.ts\<close>\<close>

text \<open>
  What \<open>analyzeTrendSegment\<close> returns for a segment, and a trend segment: the fit with
  the two change points that bound it.
\<close>

record trend_fit =
  slope :: jsnum
  confidence :: jsnum

record trend_segment = trend_fit +
  seg_start :: nat
  seg_end :: nat






subsection \<open>Constant series\<close>

definition constant_series :: PatternAnalyzer where
  "constant_series =
     ultimate_constructor [Fin 5, Fin 5, Fin 5, Fin 5, Fin 5, Fin 5] (map Fin [1, 2, 3, 4, 5, 6])
       \<lparr> opt_domain = None, opt_contextWindow = None \<rparr>"

definition fives :: PatternAnalyzer where
  "fives =
     ultimate_constructor [Fin 5, Fin 5, Fin 5] [Fin 1, Fin 2, Fin 3]
       \<lparr> opt_domain = None, opt_contextWindow = None \<rparr>"

subsection \<open>A run of the trend detector\<close>






section \<open>The overall confidence of \<open>analyzers/PatternAnalyzer.ts\<close>\<close>

text \<open>
  What \<open>analyzeTimeSeries\<close> returns: the trend segments, the seasonality, the change
  points and the anomalies.  The confidence reads the confidence of every trend segment
  and of every anomaly and the strength of the seasonality.
\<close>

record seasonality =
  seasonal_period :: nat
  seasonal_strength :: jsnum
  components :: "jsnum list"

datatype change_type = LevelChange | TrendChange | VarianceChange

record changePoint =
  cp_index :: nat
  cp_confidence :: jsnum
  cp_type :: change_type

record anomaly =
  anomaly_index :: nat
  anomaly_value :: jsnum
  anomaly_confidence :: jsnum

record TimeSeriesResult =
  trends :: "trend_segment list"
  seasonality :: seasonality
  changePoints :: "changePoint list"
  anomalies :: "anomaly list"

definition assessPatternStrength :: "TimeSeriesResult \<Rightarrow> jsnum" where
  "assessPatternStrength ts =
     (let trendStrength = lodash_mean (map confidence (trends ts));
          seasonalStrength = seasonal_strength (seasonality ts);
          anomalyConfidence = lodash_mean (map anomaly_confidence (anomalies ts))
      in jdiv (jadd (jadd trendStrength seasonalStrength) anomalyConfidence) (Fin 3))"

text \<open>
  The scores whose computation is not among the sources (\<open>testNormality\<close>,
  \<open>testStationarity\<close>, \<open>assessVarianceStability\<close>), and the timeliness, which
  \<open>assessTimeliness\<close> computes from the timestamps in the default order of
  \<open>Array.prototype.sort\<close> (the order of their decimal strings): each is a parameter.
\<close>

record scores =
  timeliness :: jsnum
  normalityScore :: jsnum
  stationarityScore :: jsnum
  varianceScore :: jsnum

text \<open>A number is never \<open>null\<close>, so the count of \<open>null\<close> values is zero.\<close>

definition assessDataQuality :: "PatternAnalyzer \<Rightarrow> scores \<Rightarrow> jsnum" where
  "assessDataQuality a sc =
     (let completeness = jsub (Fin 1) (jdiv (num 0) (num (length (data a))));
          validity = (if list_all (\<lambda>x. x \<noteq> NaN) (data a) then Fin 1 else Fin 0)
      in jdiv (jadd (jadd completeness validity) (timeliness sc)) (Fin 3))"

definition assessStatisticalSignificance :: "scores \<Rightarrow> jsnum" where
  "assessStatisticalSignificance sc =
     jdiv (jadd (jadd (normalityScore sc) (stationarityScore sc)) (varianceScore sc)) (Fin 3)"

definition calculateOverallConfidence ::
  "PatternAnalyzer \<Rightarrow> scores \<Rightarrow> TimeSeriesResult \<Rightarrow> jsnum" where
  "calculateOverallConfidence a sc ts =
     (let dataQuality = assessDataQuality a sc;
          patternStrength = assessPatternStrength ts;
          statisticalSignificance = assessStatisticalSignificance sc
      in jdiv (jadd (jadd dataQuality patternStrength) statisticalSignificance) (Fin 3))"

definition in_unit_interval :: "jsnum \<Rightarrow> bool" where
  "in_unit_interval x = (jle (Fin 0) x \<and> jle x (Fin 1))"

text \<open>
  The analysis of a constant series in which no trend segment and no anomaly was found,
  with every parameter score at its best.
\<close>

definition nothing_detected :: TimeSeriesResult where
  "nothing_detected =
     \<lparr> trends = [],
       seasonality = \<lparr> seasonal_period = 1, seasonal_strength = Fin 0, components = [] \<rparr>,
       changePoints = [], anomalies = [] \<rparr>"

definition best_scores :: scores where
  "best_scores =
     \<lparr> timeliness = Fin 1, normalityScore = Fin 1, stationarityScore = Fin 1,
       varianceScore = Fin 1 \<rparr>"

section \<open>The handler of the \<open>analyzePatterns\<close> action and its cache\<close>

text \<open>
  The handler reads the cache, and on a miss it constructs an analyzer, starts
  \<open>analyzeHolistically\<close> and awaits it.  When the analysis has settled it builds the
  result from the analysis, from \<open>analyzer.generateVisualization()\<close> and from the time,
  stores it under the key and returns it.  The \<open>await\<close> is the one point at which the
  handler of another request can run, so the handler is modelled in two halves: up to the
  \<open>await\<close>, and after it.  The state is what the halves share: the cache, a count of the
  analyses that were started, and the names of the events sent to the analytics service.
  The cache is a map from keys to results; expiry and eviction only remove entries.  A
  cached result is an object, so the test \<open>if (cached)\<close> succeeds exactly when the key
  is in the cache.
\<close>

record 'r services =
  cache :: "string \<rightharpoonup> 'r"
  analyses_started :: nat
  tracked :: "string list"



text \<open>
  The second half.  What the awaited analysis settled to, what
  \<open>generateVisualization\<close> returns or throws, and the time are parameters.  In the
  program as it stands \<open>generateVisualization\<close> throws: it builds JSX from components
  that the file never imports, and reads \<open>trend\<close> off the promise that
  \<open>decomposeSeries\<close> returns.  A throw of either leaves the cache as it was.
\<close>

record ('an, 'vis) handler_result =
  analysis :: 'an
  visualization :: 'vis
  timestamp :: nat

definition handler_after_await ::
  "string \<Rightarrow> thrown + 'an \<Rightarrow> thrown + 'vis \<Rightarrow> nat \<Rightarrow> ('an, 'vis) handler_result services
     \<Rightarrow> (thrown + ('an, 'vis) handler_result) \<times> ('an, 'vis) handler_result services" where
  "handler_after_await cacheKey settled generateVisualization now s =
     (case settled of
        Inl error \<Rightarrow>
          (Inl error, s\<lparr> tracked := tracked s @ [''pattern_analysis_error''] \<rparr>)
      | Inr an \<Rightarrow>
          (case generateVisualization of
             Inl error \<Rightarrow>
               (Inl error, s\<lparr> tracked := tracked s @ [''pattern_analysis_error''] \<rparr>)
           | Inr vis \<Rightarrow>
               (let result = \<lparr> analysis = an, visualization = vis, timestamp = now \<rparr>
                in (Inr result, s\<lparr> cache := (cache s)(cacheKey \<mapsto> result) \<rparr>))))"



section \<open>Numbers and sorting: auxiliary facts\<close>

lemma set_insert_by: "set (insert_by after x ys) = insert x (set ys)"
  by (induction ys) auto

lemma length_insert_by: "length (insert_by after x ys) = Suc (length ys)"
  by (induction ys) auto

lemma set_foldr_insert_by: "set (foldr (insert_by after) xs []) = set xs"
  by (induction xs) (simp_all add: set_insert_by)

lemma length_foldr_insert_by: "length (foldr (insert_by after) xs []) = length xs"
  by (induction xs) (simp_all add: length_insert_by)

lemma sorted_wrt_insert_by:
  assumes "sorted_wrt le ys" and "P x" and "\<forall>y\<in>set ys. P y"
    and behind: "\<And>u v. P u \<Longrightarrow> P v \<Longrightarrow> after u v \<Longrightarrow> le v u"
    and front: "\<And>u v. P u \<Longrightarrow> P v \<Longrightarrow> \<not> after u v \<Longrightarrow> le u v"
    and trans: "\<And>u v w. P u \<Longrightarrow> P v \<Longrightarrow> P w \<Longrightarrow> le u v \<Longrightarrow> le v w \<Longrightarrow> le u w"
  shows "sorted_wrt le (insert_by after x ys)"
  using assms(1,3)
proof (induction ys)
  case Nil
  then show ?case by simp
next
  case (Cons y ys)
  show ?case
  proof (cases "after x y")
    case True
    have "le y x" using behind [OF \<open>P x\<close> _ True] Cons.prems by simp
    moreover have "sorted_wrt le (insert_by after x ys)"
      using Cons by simp
    ultimately show ?thesis
      using True Cons.prems by (auto simp: set_insert_by)
  next
    case False
    have xy: "le x y" using front [OF \<open>P x\<close> _ False] Cons.prems by simp
    have "le x z" if "z \<in> set ys" for z
      using trans [OF \<open>P x\<close> _ _ xy, of z] Cons.prems that by auto
    then show ?thesis
      using False xy Cons.prems by auto
  qed
qed

lemma sorted_wrt_foldr_insert_by:
  assumes "\<forall>x\<in>set xs. P x"
    and behind: "\<And>u v. P u \<Longrightarrow> P v \<Longrightarrow> after u v \<Longrightarrow> le v u"
    and front: "\<And>u v. P u \<Longrightarrow> P v \<Longrightarrow> \<not> after u v \<Longrightarrow> le u v"
    and trans: "\<And>u v w. P u \<Longrightarrow> P v \<Longrightarrow> P w \<Longrightarrow> le u v \<Longrightarrow> le v w \<Longrightarrow> le u w"
  shows "sorted_wrt le (foldr (insert_by after) xs [])"
  using assms(1)
proof (induction xs)
  case Nil
  then show ?case by simp
next
  case (Cons x xs)
  have "sorted_wrt le (insert_by after x (foldr (insert_by after) xs []))"
  proof (rule sorted_wrt_insert_by [where P = P])
    show "sorted_wrt le (foldr (insert_by after) xs [])" using Cons by simp
    show "P x" using Cons.prems by simp
    show "\<forall>y\<in>set (foldr (insert_by after) xs []). P y"
      using Cons.prems by (simp add: set_foldr_insert_by)
  qed (fact behind front trans)+
  then show ?case by simp
qed

lemma jle_trans: "jle x y \<Longrightarrow> jle y z \<Longrightarrow> jle x z"
  by (cases x; cases y; cases z) (auto simp: jle_def)

lemma jle_refl: "x \<noteq> NaN \<Longrightarrow> jle x x"
  by (cases x) (auto simp: jle_def)

lemma jle_total: "x \<noteq> NaN \<Longrightarrow> y \<noteq> NaN \<Longrightarrow> \<not> jlt y x \<Longrightarrow> jle x y"
  by (simp add: jle_def)

lemma jlt_imp_jle: "jlt x y \<Longrightarrow> jle x y"
  by (cases x; cases y) (auto simp: jle_def)

lemma jlt_not_NaN: "jlt x y \<Longrightarrow> x \<noteq> NaN \<and> y \<noteq> NaN"
  by (cases x; cases y) auto

lemma jsub_pos_iff: "x \<noteq> NaN \<Longrightarrow> y \<noteq> NaN \<Longrightarrow> jlt (Fin 0) (jsub y x) = jlt x y"
  by (cases x; cases y) (auto simp: jsub_def)

section \<open>Peaks and cycles: auxiliary facts\<close>

lemma length_computeAutocorrelation: "length (computeAutocorrelation a m) = m"
  by (simp add: computeAutocorrelation_def Let_def)

lemma findPeaks_member:
  assumes "p \<in> set (findPeaks xs)"
  shows "2 \<le> peak_index p \<and> peak_index p < length xs \<and> peak_value p \<noteq> NaN"
proof -
  from assms obtain i where i: "i < length xs"
    and p: "p = \<lparr> peak_index = i + 1, peak_value = xs ! i,
                 isPeak = (0 < i \<and> int i < int (length xs) - 1
                           \<and> jgt (xs ! i) (num_at xs (i - 1))
                           \<and> jgt (xs ! i) (num_at xs (i + 1))) \<rparr>"
    and pk: "isPeak p"
    by (auto simp: findPeaks_def enumerate_eq_zip in_set_zip)
  from p pk have "0 < i" and "int i < int (length xs) - 1"
    and gt: "jgt (xs ! i) (num_at xs (i - 1))" by simp_all
  moreover from gt have "xs ! i \<noteq> NaN"
    using jlt_not_NaN by (auto simp: jgt_def)
  ultimately show ?thesis using p by auto
qed

lemma set_detectPeriodicity:
  "set (detectPeriodicity a) =
     (\<lambda>p. \<lparr> period = peak_index p, strength = peak_value p,
             cycle_confidence = assessPeriodConfidence a (peak_index p) (peak_value p) \<rparr>)
       ` set (findPeaks (computeAutocorrelation a (length (data a) div 3)))"
  by (simp add: detectPeriodicity_def Let_def Array_sort_def set_foldr_insert_by)

lemma detectPeriodicity_member:
  assumes "c \<in> set (detectPeriodicity a)"
  shows "2 \<le> period c \<and> period c < length (data a) div 3 \<and> strength c \<noteq> NaN
         \<and> cycle_confidence c = assessPeriodConfidence a (period c) (strength c)"
proof -
  from assms obtain p
    where p: "p \<in> set (findPeaks (computeAutocorrelation a (length (data a) div 3)))"
      and c: "c = \<lparr> period = peak_index p, strength = peak_value p,
             cycle_confidence = assessPeriodConfidence a (peak_index p) (peak_value p) \<rparr>"
    unfolding set_detectPeriodicity by auto
  from findPeaks_member [OF p] c show ?thesis
    by (simp add: length_computeAutocorrelation)
qed

lemma sorted_detectPeriodicity:
  "sorted_wrt (\<lambda>x y. jge (strength x) (strength y)) (detectPeriodicity a)"
  unfolding detectPeriodicity_def Let_def Array_sort_def
proof (rule sorted_wrt_foldr_insert_by [where P = "\<lambda>c. strength c \<noteq> NaN"], goal_cases)
  case 1
  then show ?case using findPeaks_member by auto
next
  case (2 u v)
  then show ?case
    using jsub_pos_iff [of "strength u" "strength v"] jlt_imp_jle
    by (auto simp: jgt_def jge_def)
next
  case (3 u v)
  then show ?case
    using jsub_pos_iff [of "strength u" "strength v"]
    by (auto simp: jgt_def jge_def jle_def)
next
  case (4 u v w)
  then show ?case using jle_trans by (auto simp: jge_def)
qed

lemma assessPeriodConfidence_formula:
  assumes "0 < p" and "0 < length (data a)"
  shows "assessPeriodConfidence a p c =
           jmul (jmul c (Fin (real (p * (length (data a) div p)) / real (length (data a)))))
             (Fin (1 - \<bar>1 / 2 - real p / real (length (data a))\<bar>))"
  using assms by (simp add: assessPeriodConfidence_def Let_def num_def jsub_def)

lemma detectPeriodicity_ex16:
  "detectPeriodicity ex16 =
     [\<lparr>period = 4, strength = Fin 1, cycle_confidence = Fin (3 / 4)\<rparr>,
      \<lparr>period = 2, strength = Fin (7 / 11), cycle_confidence = Fin (35 / 88)\<rparr>]"
  by code_simp

lemma length_data_ex16: "length (data ex16) = 16"
  by (simp add: ex16_def ultimate_constructor_def)

section \<open>Value at risk: auxiliary facts\<close>

lemma length_calculateReturns: "length (calculateReturns a) = length (data a) - 1"
  by (simp add: calculateReturns_def)

lemma set_lodash_sortBy: "set (lodash_sortBy xs) = set xs"
  by (simp add: lodash_sortBy_def set_foldr_insert_by)

lemma length_lodash_sortBy: "length (lodash_sortBy xs) = length xs"
  by (simp add: lodash_sortBy_def length_foldr_insert_by)

lemma sorted_lodash_sortBy:
  assumes "NaN \<notin> set xs"
  shows "sorted_wrt jle (lodash_sortBy xs)"
  unfolding lodash_sortBy_def
proof (rule sorted_wrt_foldr_insert_by [where P = "\<lambda>x. x \<noteq> NaN"], goal_cases)
  case 1
  then show ?case using assms by auto
next
  case (2 u v)
  then show ?case
    using jlt_imp_jle by (auto simp: compareAscending_after_def jgt_def)
next
  case (3 u v)
  then show ?case
    by (auto simp: compareAscending_after_def jgt_def jle_def)
next
  case (4 u v w)
  then show ?case using jle_trans by blast
qed

lemma sorted_nth_jle:
  assumes "sorted_wrt jle xs" and "NaN \<notin> set xs" and "i \<le> j" and "j < length xs"
  shows "jle (xs ! i) (xs ! j)"
proof (cases "i = j")
  case True
  then show ?thesis using assms jle_refl [of "xs ! j"] by (metis nth_mem)
next
  case False
  then show ?thesis using assms sorted_wrt_nth_less [of jle xs i j] by simp
qed

lemma calculateReturns_prices:
  "calculateReturns prices = Fin (ln (1 / 4)) # replicate 19 (Fin (ln 2))"
  by (simp add: prices_def calculateReturns_def ultimate_constructor_def num_at_def
        enumerate_eq_zip upt_rec numeral_eq_Suc)

lemma sorted_prices:
  "lodash_sortBy (Fin (ln (1 / 4)) # replicate 19 (Fin (ln 2))) =
     Fin (ln (1 / 4)) # replicate 19 (Fin (ln 2))"
  using ln_gt_zero [of "2::real"] ln_gt_zero [of "4::real"]
  by (simp add: lodash_sortBy_def compareAscending_after_def jgt_def
        numeral_eq_Suc)

section \<open>Decomposition: auxiliary facts\<close>

lemma extractSeasonalComponent_throws:
  assumes "detectPeriodicity a \<noteq> []"
  shows "extractSeasonalComponent a = Inl (OtherError ''TypeError: _.mean is not a function'')"
proof -
  define p where "p = period (hd (detectPeriodicity a))"
  have "hd (detectPeriodicity a) \<in> set (detectPeriodicity a)" using assms by simp
  from detectPeriodicity_member [OF this] have "0 < p" by (simp add: p_def)
  then have "[0..<p] = 0 # [1..<p]" by (simp add: upt_conv_Cons)
  moreover have "seasonalPattern_callback a p 0 =
                   Inl (OtherError ''TypeError: _.mean is not a function'')"
    by (simp add: seasonalPattern_callback_def)
  ultimately have "map_thrown (seasonalPattern_callback a p) [0..<p] =
                     Inl (OtherError ''TypeError: _.mean is not a function'')"
    by (simp add: and_then_def)
  then show ?thesis
    using assms by (simp add: extractSeasonalComponent_def Let_def p_def and_then_def)
qed

lemma decomposeSeries_throws:
  assumes "detectPeriodicity a \<noteq> []"
  shows "decomposeSeries a = Inl (OtherError ''TypeError: _.mean is not a function'')"
  using extractSeasonalComponent_throws [OF assms]
  by (simp add: decomposeSeries_def Let_def and_then_def)

section \<open>Zero variance: auxiliary facts\<close>

lemma calculateSignificance_NaN: "calculateSignificance NaN n = NaN"
  by (simp add: calculateSignificance_def normalCDF_def jsub_def jgt_def)

lemma variance_fives: "variance (data fives) = Fin 0"
  by code_simp

lemma data_fives: "data fives = [Fin 5, Fin 5, Fin 5]"
  by (simp add: fives_def ultimate_constructor_def)

section \<open>Trend segments: auxiliary facts\<close>

















section \<open>Returns that are not numbers: auxiliary facts\<close>

lemma calculateReturns_sign_change: "calculateReturns sign_change = [NaN]"
  by (simp add: sign_change_def calculateReturns_def ultimate_constructor_def num_at_def
        enumerate_eq_zip signed_inf_def)

lemma calculateReturns_sign_changes:
  "calculateReturns sign_changes = Fin (ln 2) # replicate 19 NaN"
  by (simp add: sign_changes_def calculateReturns_def ultimate_constructor_def num_at_def
        enumerate_eq_zip upt_rec numeral_eq_Suc)

lemma sorted_sign_change: "lodash_sortBy [NaN] = [NaN]"
  by (simp add: lodash_sortBy_def)

lemma sorted_sign_changes:
  "lodash_sortBy (Fin (ln 2) # replicate 19 NaN) = Fin (ln 2) # replicate 19 NaN"
  by (simp add: lodash_sortBy_def compareAscending_after_def jgt_def numeral_eq_Suc)

section \<open>Construction with arrays of different lengths\<close>

text \<open>
  Claim C2, as the code has it: constructing the analyzer of
  \<open>analyzers/PatternAnalyzer.ts\<close> from a data array and a timestamp array of different
  lengths always fails and yields no analyzer, and the error is an \<open>AnalysisError\<close> with
  the code \<open>INSUFFICIENT_DATA\<close>, whose kind is insufficient data.  The analyzer class
  local to \<open>experts/ultimate.ts\<close> stores the two arrays as they are.
\<close>

theorem constructor_length_mismatch:
  assumes "length d \<noteq> length ts"
  shows "PatternAnalyzer_constructor d ts options =
           Inl (AnalysisError ''Data and timestamps must have same length''
                  INSUFFICIENT_DATA None)
         \<and> map_sum kind_of id (PatternAnalyzer_constructor d ts options) =
           Inl (Some InsufficientData)
         \<and> data (ultimate_constructor d ts options) = d
         \<and> timestamps (ultimate_constructor d ts options) = ts"
  using assms by (simp add: PatternAnalyzer_constructor_def ultimate_constructor_def)

theorem constructor_length_mismatch_witness:
  "length [Fin 1, Fin 2] \<noteq> length [Fin 0]
   \<and> PatternAnalyzer_constructor [Fin 1, Fin 2] [Fin 0]
        \<lparr> opt_domain = None, opt_contextWindow = None \<rparr> =
      Inl (AnalysisError ''Data and timestamps must have same length''
             INSUFFICIENT_DATA None)"
  using constructor_length_mismatch
    [of "[Fin 1, Fin 2]" "[Fin 0]" "\<lparr> opt_domain = None, opt_contextWindow = None \<rparr>"]
  by simp

text \<open>
  Claim C2 as the specification words it fails: with one value and no timestamp the
  constructor fails, but the kind of its error is insufficient data, not a dimension
  mismatch.
\<close>

theorem constructor_not_DimensionMismatch:
  "length [Fin 1] \<noteq> length ([] :: jsnum list)
   \<and> map_sum kind_of id
        (PatternAnalyzer_constructor [Fin 1] []
           \<lparr> opt_domain = None, opt_contextWindow = None \<rparr>)
      = Inl (Some InsufficientData)
   \<and> map_sum kind_of id
        (PatternAnalyzer_constructor [Fin 1] []
           \<lparr> opt_domain = None, opt_contextWindow = None \<rparr>)
      \<noteq> Inl (Some DimensionMismatch)"
  by (simp add: PatternAnalyzer_constructor_def)

section \<open>An unrecognized domain tag\<close>

text \<open>
  Claim C3, as the code has it: when the options carry a non-empty domain tag that is none
  of the three known ones, \<open>analyzeHolistically\<close> returns no section at all.  It fails
  with an \<open>ANALYSIS_FAILED\<close> error, whose cause is the \<open>INVALID_DOMAIN\<close> error of the
  domain step when the time-series and statistics steps before it succeeded, and the
  error of the first failing earlier step otherwise.
\<close>

theorem invalid_domain_fails_whole_analysis:
  assumes "domain a = Some d" and "d \<noteq> []" and "\<not> recognized_domain d"
  shows "analyzeHolistically c a =
           Inl (AnalysisError ''Analysis failed'' ANALYSIS_FAILED
                  (Some (case analyzeTimeSeries c a of
                           Inl e \<Rightarrow> e
                         | Inr ts \<Rightarrow>
                             (case computeStatistics c a of
                                Inl e \<Rightarrow> e
                              | Inr st \<Rightarrow>
                                  AnalysisError ''Invalid domain specified''
                                    INVALID_DOMAIN None))))"
  using assms
  by (simp add: analyzeHolistically_def analyzeDomainSpecific_def and_then_def
        recognized_domain_def split: sum.splits)

theorem invalid_domain_fails_whole_analysis_witness:
  "domain weather_analyzer = Some ''weather'' \<and> ''weather'' \<noteq> []
   \<and> \<not> recognized_domain ''weather''
   \<and> analyzeHolistically succeeding weather_analyzer =
       Inl (AnalysisError ''Analysis failed'' ANALYSIS_FAILED
              (Some (AnalysisError ''Invalid domain specified'' INVALID_DOMAIN None)))"
  using invalid_domain_fails_whole_analysis [of weather_analyzer "''weather''" succeeding]
  by (simp add: weather_analyzer_def succeeding_def recognized_domain_def)

text \<open>
  Claim C3 as the specification words it fails: with the tag \<open>weather\<close>, equal lengths
  and every other step succeeding, the facade returns no time-series, statistics or
  correlations section; the result is an error.
\<close>

theorem invalid_domain_returns_no_sections:
  "analyzeHolistically succeeding weather_analyzer =
     Inl (AnalysisError ''Analysis failed'' ANALYSIS_FAILED
            (Some (AnalysisError ''Invalid domain specified'' INVALID_DOMAIN None)))
   \<and> length (data weather_analyzer) = length (timestamps weather_analyzer)
   \<and> analyzeTimeSeries succeeding weather_analyzer = Inr ()
   \<and> computeStatistics succeeding weather_analyzer = Inr ()
   \<and> analyzeCorrelations succeeding weather_analyzer = Inr ()"
  by (simp add: analyzeHolistically_def analyzeDomainSpecific_def and_then_def
        weather_analyzer_def succeeding_def)

section \<open>The periods of the detected cycles\<close>

text \<open>
  Claim C10: every cycle that \<open>detectPeriodicity\<close> returns for a series of length \<open>n\<close>
  has a period between \<open>2\<close> and \<open>\<lfloor>n/3\<rfloor> - 1\<close>.  The first and the last lag of the
  autocorrelation curve are never peaks, so the periods \<open>1\<close> and \<open>\<lfloor>n/3\<rfloor>\<close> are never
  reported.
\<close>

theorem cycle_period_bounds:
  assumes "c \<in> set (detectPeriodicity a)"
  shows "2 \<le> int (period c) \<and> int (period c) \<le> int (length (data a) div 3) - 1"
  using detectPeriodicity_member [OF assms] by auto

theorem cycle_period_bounds_witness:
  "\<lparr>period = 4, strength = Fin 1, cycle_confidence = Fin (3 / 4)\<rparr>
     \<in> set (detectPeriodicity ex16)
   \<and> 2 \<le> int 4 \<and> int 4 \<le> int (length (data ex16) div 3) - 1"
  using cycle_period_bounds
    [of "\<lparr>period = 4, strength = Fin 1, cycle_confidence = Fin (3 / 4)\<rparr>" ex16]
  by (simp add: detectPeriodicity_ex16)

section \<open>The order and the confidence of the detected cycles\<close>

text \<open>
  Claim C6: the cycles that \<open>detectPeriodicity\<close> returns for a series of length \<open>n\<close>
  are in descending order of strength, and the confidence of each is its strength times
  the coverage \<open>period \<sqdot> \<lfloor>n/period\<rfloor> / n\<close> times \<open>1 - |0.5 - period/n|\<close>.
\<close>

theorem cycles_sorted_with_confidence:
  "sorted_wrt (\<lambda>x y. jge (strength x) (strength y)) (detectPeriodicity a)
   \<and> (\<forall>c \<in> set (detectPeriodicity a).
         cycle_confidence c =
           jmul (jmul (strength c)
                   (Fin (real (period c * (length (data a) div period c))
                         / real (length (data a)))))
             (Fin (1 - \<bar>1 / 2 - real (period c) / real (length (data a))\<bar>)))"
proof (intro conjI ballI)
  show "sorted_wrt (\<lambda>x y. jge (strength x) (strength y)) (detectPeriodicity a)"
    by (rule sorted_detectPeriodicity)
next
  fix c assume c: "c \<in> set (detectPeriodicity a)"
  from detectPeriodicity_member [OF c]
  have "0 < period c" and "0 < length (data a)"
    and "cycle_confidence c = assessPeriodConfidence a (period c) (strength c)"
    by auto
  then show "cycle_confidence c =
           jmul (jmul (strength c)
                   (Fin (real (period c * (length (data a) div period c))
                         / real (length (data a)))))
             (Fin (1 - \<bar>1 / 2 - real (period c) / real (length (data a))\<bar>))"
    by (simp add: assessPeriodConfidence_formula)
qed

theorem cycles_sorted_with_confidence_witness:
  "detectPeriodicity ex16 =
     [\<lparr>period = 4, strength = Fin 1, cycle_confidence = Fin (3 / 4)\<rparr>,
      \<lparr>period = 2, strength = Fin (7 / 11), cycle_confidence = Fin (35 / 88)\<rparr>]
   \<and> jge (Fin 1) (Fin (7 / 11))
   \<and> Fin (3 / 4) = jmul (jmul (Fin 1) (Fin (real (4 * (16 div 4)) / real 16)))
                      (Fin (1 - \<bar>1 / 2 - real 4 / real 16\<bar>))
   \<and> Fin (35 / 88) = jmul (jmul (Fin (7 / 11)) (Fin (real (2 * (16 div 2)) / real 16)))
                      (Fin (1 - \<bar>1 / 2 - real 2 / real 16\<bar>))"
  using cycles_sorted_with_confidence [of ex16]
  by (simp add: detectPeriodicity_ex16 length_data_ex16)

section \<open>The order of the values at risk\<close>

text \<open>
  Claim C5, as the code has it: for a series with a non-empty return distribution (at
  least two values) in which no return is NaN, the value at risk at confidence \<open>0.99\<close>
  is at most the value at risk at confidence \<open>0.95\<close>, and both are defined.
\<close>

theorem value_at_risk_monotone:
  assumes "2 \<le> length (data a)" and "NaN \<notin> set (calculateReturns a)"
  shows "\<exists>x y. calculateValueAtRisk a (99 / 100) = Some x
               \<and> calculateValueAtRisk a (95 / 100) = Some y \<and> jle x y"
proof -
  define rs where "rs = calculateReturns a"
  define n where "n = length rs"
  define s where "s = lodash_sortBy rs"
  define i where "i = \<lfloor>(1 - 99 / 100) * real n\<rfloor>"
  define j where "j = \<lfloor>(1 - 95 / 100) * real n\<rfloor>"
  have n: "0 < n" using assms(1) by (simp add: n_def rs_def length_calculateReturns)
  have len: "length s = n" by (simp add: s_def n_def length_lodash_sortBy)
  have i0: "0 \<le> i" unfolding i_def by simp
  have ij: "i \<le> j" unfolding i_def j_def by (intro floor_mono) simp
  have "(1 - 95 / 100) * real n < real n" using n by simp
  then have "j < int n" unfolding j_def by linarith
  then have jn: "nat j < n" using i0 ij by linarith
  have ijn: "nat i \<le> nat j" using ij by simp
  have srt: "sorted_wrt jle s" and nan: "NaN \<notin> set s"
    using assms(2) by (simp_all add: s_def rs_def sorted_lodash_sortBy set_lodash_sortBy)
  have "jle (s ! nat i) (s ! nat j)"
    using sorted_nth_jle [OF srt nan ijn] jn len by simp
  moreover have "calculateValueAtRisk a (99 / 100) = Some (s ! nat i)"
    using i0 ijn jn len
    unfolding calculateValueAtRisk_def Let_def i_def j_def s_def rs_def n_def
    by simp
  moreover have "calculateValueAtRisk a (95 / 100) = Some (s ! nat j)"
    using i0 ij jn len
    unfolding calculateValueAtRisk_def Let_def i_def j_def s_def rs_def n_def
    by simp
  ultimately show ?thesis by blast
qed

theorem value_at_risk_monotone_witness:
  "2 \<le> length (data prices) \<and> NaN \<notin> set (calculateReturns prices)
   \<and> calculateValueAtRisk prices (99 / 100) = Some (Fin (ln (1 / 4)))
   \<and> calculateValueAtRisk prices (95 / 100) = Some (Fin (ln 2))
   \<and> jle (Fin (ln (1 / 4))) (Fin (ln 2))"
proof -
  have len: "2 \<le> length (data prices)"
    by (simp add: prices_def ultimate_constructor_def)
  have nan: "NaN \<notin> set (calculateReturns prices)"
    by (simp add: calculateReturns_prices)
  have a: "calculateValueAtRisk prices (99 / 100) = Some (Fin (ln (1 / 4)))"
    by (simp add: calculateValueAtRisk_def sorted_prices Let_def calculateReturns_prices)
  have b: "calculateValueAtRisk prices (95 / 100) = Some (Fin (ln 2))"
    by (simp add: calculateValueAtRisk_def sorted_prices Let_def calculateReturns_prices)
  from value_at_risk_monotone [OF len nan] a b len nan show ?thesis by simp
qed

text \<open>
  Claim C5 as the specification words it fails.  The series \<open>1, -1\<close> has one return,
  which is NaN, and both values at risk are NaN, which is not at most NaN.  The series
  \<open>1, 2, -2, 2, -2, ...\<close> of twenty-one values has twenty returns, of which the first is
  \<open>ln 2\<close> and the others are NaN: the value at risk at \<open>0.99\<close> is \<open>ln 2\<close>, the one at
  \<open>0.95\<close> is NaN, and no number is at most NaN.
\<close>

theorem value_at_risk_with_NaN_returns:
  "calculateReturns sign_change = [NaN]
   \<and> calculateValueAtRisk sign_change (99 / 100) = Some NaN
   \<and> calculateValueAtRisk sign_change (95 / 100) = Some NaN
   \<and> \<not> jle NaN NaN
   \<and> length (calculateReturns sign_changes) = 20
   \<and> calculateValueAtRisk sign_changes (99 / 100) = Some (Fin (ln 2))
   \<and> calculateValueAtRisk sign_changes (95 / 100) = Some NaN
   \<and> \<not> jle (Fin (ln 2)) NaN"
  by (simp add: calculateValueAtRisk_def Let_def calculateReturns_sign_change
        calculateReturns_sign_changes sorted_sign_changes sorted_sign_change jle_def)

section \<open>Autocorrelation of a series with zero variance\<close>

text \<open>
  Claim C7 asks that the autocorrelation of a series with zero variance fails with a
  degenerate-input error and never crashes or yields an undefined value.  For the series
  \<open>5, 5, 5\<close>, whose variance is zero, \<open>calculateAutocorrelation\<close> does neither.
  With lodash as it is, the call of \<open>_.variance\<close> throws a TypeError, which is no
  degenerate-input error.  With a variance function added to lodash, nothing guards the
  division by the variance: the coefficient of lag \<open>1\<close> is zero divided by zero, and the
  function returns an entry whose coefficient and significance are NaN.
\<close>

theorem zero_variance_autocorrelation_unguarded:
  "variance (data fives) = Fin 0
   \<and> calculateAutocorrelation None (data fives) 1 =
       Inl (OtherError ''TypeError: _.variance is not a function'')
   \<and> map_sum kind_of id (calculateAutocorrelation None (data fives) 1)
       \<noteq> Inl (Some DegenerateInput)
   \<and> calculateAutocorrelation (Some variance) (data fives) 1 =
       Inr [\<lparr> lag = 1, coefficient = NaN, significance = NaN \<rparr>]"
proof -
  have "calculateAutocorrelation (Some variance) (data fives) 1 =
          Inr [\<lparr> lag = 1, coefficient = NaN, significance = NaN \<rparr>]"
    using variance_fives
    by (simp add: calculateAutocorrelation_def lodash_variance_call_def and_then_def Let_def
          data_fives lodash_mean_def lodash_sum_def num_at_def num_def jsub_def
          signed_inf_def calculateSignificance_NaN upt_rec numeral_eq_Suc)
  moreover have "calculateAutocorrelation None (data fives) 1 =
                   Inl (OtherError ''TypeError: _.variance is not a function'')"
    by (simp add: calculateAutocorrelation_def lodash_variance_call_def and_then_def Let_def)
  ultimately show ?thesis
    using variance_fives by simp
qed

section \<open>The trend segments\<close>




section \<open>The overall confidence when nothing is detected\<close>

text \<open>
  Claim C4 asks for a confidence between \<open>0\<close> and \<open>1\<close> on every valid input, with the
  pattern strength counting \<open>0\<close> for an absent component.  The code averages the
  confidences with \<open>_.mean\<close>, which is NaN on an empty list: for the constant series
  with no trend segment and no anomaly the data quality and the statistical significance
  are \<open>1\<close>, the pattern strength is NaN, and so is the overall confidence, which is
  therefore not in the interval.
\<close>

theorem confidence_NaN_when_nothing_detected:
  "assessDataQuality constant_series best_scores = Fin 1
   \<and> assessStatisticalSignificance best_scores = Fin 1
   \<and> assessPatternStrength nothing_detected = NaN
   \<and> calculateOverallConfidence constant_series best_scores nothing_detected = NaN
   \<and> \<not> in_unit_interval
         (calculateOverallConfidence constant_series best_scores nothing_detected)"
  by (simp add: calculateOverallConfidence_def assessDataQuality_def
        assessStatisticalSignificance_def assessPatternStrength_def nothing_detected_def
        best_scores_def constant_series_def ultimate_constructor_def in_unit_interval_def
        lodash_mean_def jle_def jsub_def num_def)

section \<open>No decomposition for a series with a cycle\<close>

text \<open>
  Claim C1 asks that \<open>decomposeSeries\<close> returns, for every series, a decomposition whose
  components add up to the data.  For a series in which \<open>detectPeriodicity\<close> finds a
  cycle the code returns no decomposition: \<open>extractSeasonalComponent\<close> throws a
  TypeError, because its callback names its first parameter \<open>_\<close> and then calls
  \<open>_.mean\<close>, and \<open>decomposeSeries\<close> fails with it.  The series of sixteen values with
  the cycles of period \<open>4\<close> and \<open>2\<close> is such a series.
\<close>

theorem decomposeSeries_throws_on_cycle:
  "detectPeriodicity ex16 \<noteq> []
   \<and> extractSeasonalComponent ex16 = Inl (OtherError ''TypeError: _.mean is not a function'')
   \<and> decomposeSeries ex16 = Inl (OtherError ''TypeError: _.mean is not a function'')"
proof -
  have "detectPeriodicity ex16 \<noteq> []"
    by (simp add: detectPeriodicity_ex16)
  then show ?thesis
    by (simp add: extractSeasonalComponent_throws decomposeSeries_throws)
qed

section \<open>Two requests with the same cache key\<close>




end
